theory Spec2Isabelle
  imports Complex_Main "HOL-Library.Word"
begin

section \<open>Data model\<close>

text \<open>
  Go's \<open>int\<close> (on a 64-bit platform) and \<open>time.Duration\<close> (an \<open>int64\<close> count of
  nanoseconds) are 64-bit two's complement integers: \<open>+\<close>, \<open>-\<close> and \<open>*\<close> wrap,
  comparisons are signed (\<open><s\<close>, \<open>\<le>s\<close>), \<open>sint\<close> reads the value.
\<close>

type_synonym int64 = "64 word"
type_synonym Duration = "64 word"

definition Millisecond :: Duration where
  "Millisecond = 1000000"

definition Second :: Duration where
  "Second = 1000000000"

text \<open>\<open>appState\<close> of the terminal player (\<open>main\<close> package): the live playback state.\<close>

record appState =
  trackName :: string
  artistNames :: string
  albumName :: string
  duration :: Duration
  progress :: Duration
  isPlaying :: bool
  shuffle :: bool
  repeat :: string
  volume :: int64
  stopped :: bool

text \<open>The types of package \<open>player\<close>: the \<open>/status\<close> response and the event payloads.\<close>

record Track =
  URI :: string
  Name :: string
  ArtistNames :: "string list"
  AlbumName :: string
  AlbumCover :: string
  Duration :: int64

record Status =
  Stopped :: bool
  Paused :: bool
  Buffering :: bool
  Volume :: int64
  VolumeSteps :: int64
  RepeatContext :: bool
  RepeatTrack :: bool
  ShuffleContext :: bool
  Track :: "Track option"

record EventMetadata =
  URI :: string
  Name :: string
  ArtistNames :: "string list"
  AlbumName :: string
  AlbumCover :: string
  Duration :: int64
  Position :: int64

record EventSeek =
  Position :: int64
  Duration :: int64

record EventVolume =
  Value :: int64
  Max :: int64

record EventBool =
  Value :: bool

text \<open>
  \<open>json.Unmarshal\<close> is library code. A raw payload (\<open>json.RawMessage\<close>) is
  represented by what decoding it into each of the four payload structs gives:
  \<open>Some d\<close> when \<open>err == nil\<close>, \<open>None\<close> when \<open>json.Unmarshal\<close> returns an error.
\<close>

record RawMessage =
  asMetadata :: "EventMetadata option"
  asSeek :: "EventSeek option"
  asVolume :: "EventVolume option"
  asBool :: "EventBool option"

record Event =
  Type :: string
  Data :: RawMessage

section \<open>The reconciler: \<open>applyEvent\<close>, \<open>applyStatus\<close> and the ticker\<close>

fun joinRest :: "string \<Rightarrow> string list \<Rightarrow> string" where
  "joinRest result [] = result"
| "joinRest result (s # ss) = joinRest (result @ '', '' @ s) ss"

definition joinStrings :: "string list \<Rightarrow> string" where
  "joinStrings ss = (case ss of [] \<Rightarrow> [] | s # rest \<Rightarrow> joinRest s rest)"

definition applyEvent :: "appState \<Rightarrow> Event \<Rightarrow> appState" where
  "applyEvent state ev =
    (if Type ev = ''metadata'' then
       (case asMetadata (Data ev) of
          Some d \<Rightarrow> state\<lparr>trackName := EventMetadata.Name d,
                          artistNames := joinStrings (EventMetadata.ArtistNames d),
                          albumName := EventMetadata.AlbumName d,
                          duration := EventMetadata.Duration d * Millisecond,
                          progress := EventMetadata.Position d * Millisecond,
                          stopped := False\<rparr>
        | None \<Rightarrow> state)
     else if Type ev = ''playing'' then state\<lparr>isPlaying := True, stopped := False\<rparr>
     else if Type ev = ''paused'' then state\<lparr>isPlaying := False\<rparr>
     else if Type ev = ''stopped'' then state\<lparr>isPlaying := False, stopped := True\<rparr>
     else if Type ev = ''seek'' then
       (case asSeek (Data ev) of
          Some d \<Rightarrow> state\<lparr>progress := EventSeek.Position d * Millisecond,
                          duration := EventSeek.Duration d * Millisecond\<rparr>
        | None \<Rightarrow> state)
     else if Type ev = ''volume'' then
       (case asVolume (Data ev) of
          Some d \<Rightarrow> state\<lparr>volume := EventVolume.Value d\<rparr>
        | None \<Rightarrow> state)
     else if Type ev = ''shuffle_context'' then
       (case asBool (Data ev) of
          Some d \<Rightarrow> state\<lparr>shuffle := EventBool.Value d\<rparr>
        | None \<Rightarrow> state)
     else if Type ev = ''repeat_context'' then
       (case asBool (Data ev) of
          Some d \<Rightarrow> (if EventBool.Value d then state\<lparr>repeat := ''context''\<rparr>
                     else if repeat state = ''context'' then state\<lparr>repeat := ''off''\<rparr>
                     else state)
        | None \<Rightarrow> state)
     else if Type ev = ''repeat_track'' then
       (case asBool (Data ev) of
          Some d \<Rightarrow> (if EventBool.Value d then state\<lparr>repeat := ''track''\<rparr>
                     else if repeat state = ''track'' then state\<lparr>repeat := ''off''\<rparr>
                     else state)
        | None \<Rightarrow> state)
     else state)"

definition applyStatus :: "appState \<Rightarrow> Status \<Rightarrow> appState" where
  "applyStatus state s =
    (let state1 = state\<lparr>isPlaying := \<not> Paused s \<and> \<not> Stopped s,
                          stopped := Stopped s,
                          shuffle := ShuffleContext s,
                          volume := Volume s\<rparr>;
         state2 = (if RepeatTrack s then state1\<lparr>repeat := ''track''\<rparr>
                   else if RepeatContext s then state1\<lparr>repeat := ''context''\<rparr>
                   else state1\<lparr>repeat := ''off''\<rparr>)
     in case Status.Track s of
          Some t \<Rightarrow> state2\<lparr>trackName := Track.Name t,
                           artistNames := joinStrings (Track.ArtistNames t),
                           albumName := Track.AlbumName t,
                           duration := Track.Duration t * Millisecond\<rparr>
        | None \<Rightarrow> state2)"

text \<open>The \<open>case <-ticker.C\<close> branch of the loop in \<open>main\<close>, before \<open>render\<close>.\<close>

definition tick :: "appState \<Rightarrow> appState" where
  "tick state =
    (if isPlaying state \<and> \<not> stopped state then
       (let state1 = state\<lparr>progress := progress state + Second\<rparr>
        in if duration state1 <s progress state1
           then state1\<lparr>progress := duration state1\<rparr>
           else state1)
     else state)"

section \<open>Key handling\<close>

text \<open>
  The methods of \<open>player.Client\<close> called by the key handler. Each returns an error that
  the handler discards (\<open>_ = pc.PlayPause()\<close>): a client \<open>pc\<close> is the outcome of each
  request (\<open>True\<close>: the request failed), and the handler returns the requests it issued.
\<close>

datatype Request =
    PlayPause
  | Next
  | Prev
  | SetVolumeRelative int64
  | SetShuffle bool
  | SetRepeatContext bool
  | SetRepeatTrack bool

type_synonym Client = "Request \<Rightarrow> bool"

definition min_int :: "int64 \<Rightarrow> int64 \<Rightarrow> int64" where
  "min_int a b = (if a <s b then a else b)"

definition max_int :: "int64 \<Rightarrow> int64 \<Rightarrow> int64" where
  "max_int a b = (if b <s a then a else b)"

definition cycleRepeat :: "appState \<Rightarrow> Client \<Rightarrow> appState \<times> Request list" where
  "cycleRepeat state pc =
    (if repeat state = ''off'' then
       (state\<lparr>repeat := ''context''\<rparr>, [SetRepeatContext True])
     else if repeat state = ''context'' then
       (state\<lparr>repeat := ''track''\<rparr>, [SetRepeatContext False, SetRepeatTrack True])
     else
       (state\<lparr>repeat := ''off''\<rparr>, [SetRepeatTrack False]))"

text \<open>
  \<open>handleKey\<close> returns whether the user wants to quit, the updated state and the
  requests sent. A key is the bytes read from the terminal.
\<close>

definition handleKey :: "string \<Rightarrow> appState \<Rightarrow> Client \<Rightarrow> bool \<times> appState \<times> Request list" where
  "handleKey key state pc =
    (if key = [CHR ''q''] \<or> key = [CHR 0x03] then (True, state, [])
     else if key = [CHR '' ''] then
       (False, state\<lparr>isPlaying := \<not> isPlaying state\<rparr>, [PlayPause])
     else if key = [CHR ''l''] \<or> key = [CHR 0x1B, CHR ''['', CHR ''C''] then
       (False, state, [Next])
     else if key = [CHR ''h''] \<or> key = [CHR 0x1B, CHR ''['', CHR ''D''] then
       (False, state, [Prev])
     else if key = [CHR ''k''] \<or> key = [CHR 0x1B, CHR ''['', CHR ''A''] then
       (False, state\<lparr>volume := min_int 100 (volume state + 5)\<rparr>, [SetVolumeRelative 5])
     else if key = [CHR ''j''] \<or> key = [CHR 0x1B, CHR ''['', CHR ''B''] then
       (False, state\<lparr>volume := max_int 0 (volume state - 5)\<rparr>, [SetVolumeRelative (- 5)])
     else if key = [CHR ''s''] then
       (let newShuffle = \<not> shuffle state
        in (False, state\<lparr>shuffle := newShuffle\<rparr>, [SetShuffle newShuffle]))
     else if key = [CHR ''r''] then
       (case cycleRepeat state pc of (state1, reqs) \<Rightarrow> (False, state1, reqs))
     else (False, state, []))"

section \<open>The event reader and the main loop\<close>



text \<open>
  The \<open>select\<close> loop of \<open>main\<close> takes one item at a time: a shutdown signal, an event
  (or the closing of the event channel), a tick of the ticker, or a key.
  \<open>step\<close> is one iteration, \<open>None\<close> when \<open>main\<close> returns; \<open>mainLoop\<close> gives the states
  passed to \<open>render\<close>, one for every item handled.
\<close>

datatype Item = Signal | EventsClosed | EventItem Event | TickItem | KeyItem string

definition step :: "Client \<Rightarrow> appState \<Rightarrow> Item \<Rightarrow> appState option" where
  "step pc state item =
    (case item of
       Signal \<Rightarrow> None
     | EventsClosed \<Rightarrow> None
     | EventItem ev \<Rightarrow> Some (applyEvent state ev)
     | TickItem \<Rightarrow> Some (tick state)
     | KeyItem key \<Rightarrow>
         (case handleKey key state pc of
            (quit, state1, reqs) \<Rightarrow> if quit then None else Some state1))"

fun mainLoop :: "Client \<Rightarrow> appState \<Rightarrow> Item list \<Rightarrow> appState list" where
  "mainLoop pc state [] = []"
| "mainLoop pc state (item # items) =
    (case step pc state item of
       None \<Rightarrow> []
     | Some state1 \<Rightarrow> state1 # mainLoop pc state1 items)"

text \<open>
  The start of \<open>main\<close>: the state is created with \<open>repeat: "off"\<close> and seeded from
  \<open>pc.Status()\<close> when that call succeeds (\<open>Some status\<close>); it is rendered once and
  the loop begins.
\<close>

definition newState :: appState where
  "newState = \<lparr>trackName = [], artistNames = [], albumName = [], duration = 0,
               progress = 0, isPlaying = False, shuffle = False, repeat = ''off'',
               volume = 0, stopped = False\<rparr>"



section \<open>The progress bar of package \<open>display\<close>\<close>

text \<open>
  \<open>strings.Repeat\<close> panics when the count is negative. \<open>float64\<close> arithmetic is
  read as exact arithmetic on the reals and \<open>int(x)\<close> as truncation towards zero;
  the two agree wherever the quotient is exact, as it is when \<open>current = total\<close>.
\<close>

datatype panic = NegativeRepeatCount

definition Repeat :: "string \<Rightarrow> int \<Rightarrow> panic + string" where
  "Repeat s count = (if count < 0 then Inl NegativeRepeatCount
                     else Inr (concat (replicate (nat count) s)))"

definition truncate :: "real \<Rightarrow> int" where
  "truncate x = (if 0 \<le> x then \<lfloor>x\<rfloor> else \<lceil>x\<rceil>)"

text \<open>The UTF-8 bytes of the three runes of the bar.\<close>

definition heavy :: string where
  "heavy = [CHR 0xE2, CHR 0x94, CHR 0x81]"

definition dot :: string where
  "dot = [CHR 0xE2, CHR 0x97, CHR 0x8F]"

definition light :: string where
  "light = [CHR 0xE2, CHR 0x94, CHR 0x80]"

definition CreateProgressBar :: "Duration \<Rightarrow> Duration \<Rightarrow> int64 \<Rightarrow> panic + string" where
  "CreateProgressBar current total' width =
    (if total' = 0 then Repeat light (sint width)
     else
       (let percentage = real_of_int (sint current) / real_of_int (sint total');
            filled = truncate (real_of_int (sint width) * percentage);
            filled1 = (if filled > sint width then sint width else filled);
            filled2 = (if filled1 < 0 then 0 else filled1)
        in case Repeat heavy filled2 of
             Inl e \<Rightarrow> Inl e
           | Inr a \<Rightarrow>
               (case Repeat light (sint width - filled2 - 1) of
                  Inl e \<Rightarrow> Inl e
                | Inr b \<Rightarrow> Inr (a @ dot @ b))))"

text \<open>
  \<open>render\<close>, as far as the bar goes: the idle screen when stopped or without a track
  name, and otherwise \<open>DisplayCurrentTrack\<close>, which builds the bar of width 50.
\<close>

definition render :: "appState \<Rightarrow> panic + string" where
  "render state =
    (if stopped state \<or> trackName state = [] then Inr []
     else CreateProgressBar (progress state) (duration state) 50)"

section \<open>Properties and inputs used in the statements\<close>

text \<open>The bound on the elapsed time and the range of the volume, as signed comparisons.\<close>

definition progressInRange :: "appState \<Rightarrow> bool" where
  "progressInRange s = (0 \<le>s progress s \<and> progress s \<le>s duration s)"

definition volumeInRange :: "appState \<Rightarrow> bool" where
  "volumeInRange s = (0 \<le>s volume s \<and> volume s \<le>s 100)"

text \<open>Clamping a duration to a limit, as the specification words the tick.\<close>

definition clampTo :: "Duration \<Rightarrow> Duration \<Rightarrow> Duration" where
  "clampTo limit x = (if x \<le>s limit then x else limit)"

text \<open>
  Events whose payload decodes: \<open>raw\<close> is any payload, here one that decodes into the
  struct of the event's type as given.
\<close>

definition metadataEvent :: "EventMetadata \<Rightarrow> RawMessage \<Rightarrow> Event" where
  "metadataEvent d raw = \<lparr>Type = ''metadata'', Data = raw\<lparr>asMetadata := Some d\<rparr>\<rparr>"

definition seekEvent :: "int64 \<Rightarrow> int64 \<Rightarrow> RawMessage \<Rightarrow> Event" where
  "seekEvent pos dur raw =
     \<lparr>Type = ''seek'',
      Data = raw\<lparr>asSeek := Some \<lparr>EventSeek.Position = pos, EventSeek.Duration = dur\<rparr>\<rparr>\<rparr>"

definition volumeEvent :: "int64 \<Rightarrow> int64 \<Rightarrow> RawMessage \<Rightarrow> Event" where
  "volumeEvent v m raw =
     \<lparr>Type = ''volume'',
      Data = raw\<lparr>asVolume := Some \<lparr>EventVolume.Value = v, EventVolume.Max = m\<rparr>\<rparr>\<rparr>"

definition boolEvent :: "string \<Rightarrow> bool \<Rightarrow> RawMessage \<Rightarrow> Event" where
  "boolEvent ty v raw = \<lparr>Type = ty, Data = raw\<lparr>asBool := Some \<lparr>EventBool.Value = v\<rparr>\<rparr>\<rparr>"

text \<open>
  A malformed event: its type is none of those \<open>applyEvent\<close> knows, or the payload
  does not decode into the struct that \<open>applyEvent\<close> decodes for its type. The types
  \<open>playing\<close>, \<open>paused\<close> and \<open>stopped\<close> have no payload that is decoded.
\<close>

definition knownTypes :: "string list" where
  "knownTypes = [''metadata'', ''playing'', ''paused'', ''stopped'', ''seek'', ''volume'',
                 ''shuffle_context'', ''repeat_context'', ''repeat_track'']"

definition unknownType :: "Event \<Rightarrow> bool" where
  "unknownType ev = (Type ev \<notin> set knownTypes)"

definition undecodablePayload :: "Event \<Rightarrow> bool" where
  "undecodablePayload ev =
     ((Type ev = ''metadata'' \<and> asMetadata (Data ev) = None)
      \<or> (Type ev = ''seek'' \<and> asSeek (Data ev) = None)
      \<or> (Type ev = ''volume'' \<and> asVolume (Data ev) = None)
      \<or> (Type ev \<in> {''shuffle_context'', ''repeat_context'', ''repeat_track''}
          \<and> asBool (Data ev) = None))"

definition malformed :: "Event \<Rightarrow> bool" where
  "malformed ev = (undecodablePayload ev \<or> unknownType ev)"

text \<open>Concrete inputs: a payload nothing decodes, a failing client, some states.\<close>

definition undecodable :: RawMessage where
  "undecodable = \<lparr>asMetadata = None, asSeek = None, asVolume = None, asBool = None\<rparr>"

definition failingClient :: Client where
  "failingClient r = True"

definition playingState :: appState where
  "playingState = newState\<lparr>trackName := ''a'', duration := 10 * Second,
                             progress := 5 * Second, isPlaying := True, volume := 50\<rparr>"

definition endOfTrack :: appState where
  "endOfTrack = newState\<lparr>trackName := ''a'', duration := 10 * Second,
                           progress := 10 * Second, isPlaying := True\<rparr>"


section \<open>Arithmetic of 64-bit durations\<close>

lemma sint_Second: "sint Second = 1000000000"
  by (simp add: Second_def)

lemma sint_add_no_wrap:
  fixes a b :: int64
  assumes "- (2 ^ 63) \<le> sint a + sint b" and "sint a + sint b < 2 ^ 63"
  shows "sint (a + b) = sint a + sint b"
  using assms by (simp add: sint_word_ariths signed_take_bit_int_eq_self)

lemma sint_sub_no_wrap:
  fixes a b :: int64
  assumes "- (2 ^ 63) \<le> sint a - sint b" and "sint a - sint b < 2 ^ 63"
  shows "sint (a - b) = sint a - sint b"
  using assms by (simp add: sint_word_ariths signed_take_bit_int_eq_self)

section \<open>The ticker\<close>

lemma tick_idle: "\<not> isPlaying s \<or> stopped s \<Longrightarrow> tick s = s"
  by (auto simp add: tick_def)

lemma tick_clamp:
  "isPlaying s \<Longrightarrow> \<not> stopped s \<Longrightarrow>
     tick s = s\<lparr>progress := clampTo (duration s) (progress s + Second)\<rparr>"
  by (simp add: tick_def clampTo_def Let_def word_sless_alt word_sle_eq not_less)

lemma tick_sint:
  assumes "isPlaying s" "\<not> stopped s" "sint (progress s) + 1000000000 < 2 ^ 63"
  shows "sint (progress (tick s)) = min (sint (progress s) + 1000000000) (sint (duration s))"
proof -
  have "- (2 ^ 63) \<le> sint (progress s)"
    using sint_ge [of "progress s"] by simp
  then have "sint (progress s + Second) = sint (progress s) + 1000000000"
    using assms(3) sint_add_no_wrap [of "progress s" Second] by (simp add: sint_Second)
  then show ?thesis
    using assms(1,2) by (simp add: tick_def Let_def word_sless_alt min_def)
qed

text \<open>
  C5. A tick adds one second to \<open>progress\<close> and clamps the sum to \<open>duration\<close> when
  the state is playing and not stopped, and changes nothing otherwise. The sum is
  that of \<open>time.Duration\<close>; where it does not pass the largest duration, the
  new value is the minimum of \<open>progress + 1s\<close> and \<open>duration\<close> as integers.
\<close>

theorem tick_advances_progress:
  "progress (tick s) =
     (if isPlaying s \<and> \<not> stopped s then clampTo (duration s) (progress s + Second)
      else progress s)
   \<and> (isPlaying s \<and> \<not> stopped s \<and> sint (progress s) + 1000000000 < 2 ^ 63 \<longrightarrow>
        sint (progress (tick s)) = min (sint (progress s) + 1000000000) (sint (duration s)))
   \<and> (\<not> isPlaying s \<or> stopped s \<longrightarrow> tick s = s)
   \<and> step pc s TickItem = Some (tick s)"
proof -
  have "progress (tick s) =
     (if isPlaying s \<and> \<not> stopped s then clampTo (duration s) (progress s + Second)
      else progress s)"
    using tick_clamp [of s] tick_idle [of s] by auto
  moreover have "step pc s TickItem = Some (tick s)"
    by (simp add: step_def)
  ultimately show ?thesis
    using tick_sint [of s] tick_idle [of s] by blast
qed

theorem tick_advances_progress_witness:
  "isPlaying playingState \<and> \<not> stopped playingState
   \<and> sint (progress playingState) + 1000000000 < 2 ^ 63
   \<and> sint (progress (tick playingState)) = 6000000000
   \<and> progress (tick endOfTrack) = 10 * Second
   \<and> \<not> isPlaying newState \<and> tick newState = newState"
  using tick_advances_progress [of playingState failingClient]
    tick_advances_progress [of endOfTrack failingClient]
    tick_advances_progress [of newState failingClient]
  by (simp add: playingState_def endOfTrack_def newState_def Second_def clampTo_def)

section \<open>Repeat\<close>

text \<open>
  C9. From \<open>repeat = "off"\<close>, three presses of the repeat key go through
  \<open>context\<close> and \<open>track\<close> and come back to \<open>off\<close>, with the state as it was.
\<close>

theorem cycle_repeat_three_times:
  assumes "repeat s = ''off''"
  shows "mainLoop pc s [KeyItem ''r'', KeyItem ''r'', KeyItem ''r'']
           = [s\<lparr>repeat := ''context''\<rparr>, s\<lparr>repeat := ''track''\<rparr>, s]
       \<and> repeat (fst (cycleRepeat s pc)) = ''context''
       \<and> repeat (fst (cycleRepeat (fst (cycleRepeat s pc)) pc)) = ''track''
       \<and> repeat (fst (cycleRepeat (fst (cycleRepeat (fst (cycleRepeat s pc)) pc)) pc)) = ''off''"
  using assms by (simp add: step_def handleKey_def cycleRepeat_def)

theorem cycle_repeat_three_times_witness:
  "repeat newState = ''off''
   \<and> mainLoop failingClient newState [KeyItem ''r'', KeyItem ''r'', KeyItem ''r'']
       = [newState\<lparr>repeat := ''context''\<rparr>, newState\<lparr>repeat := ''track''\<rparr>, newState]"
proof -
  have off: "repeat newState = ''off''"
    by (simp add: newState_def)
  show ?thesis
    using off cycle_repeat_three_times [OF off, of failingClient] by simp
qed

text \<open>
  C6. A \<open>repeat_context\<close> event with value true sets \<open>repeat\<close> to \<open>context\<close> and a
  \<open>repeat_track\<close> event with value true sets it to \<open>track\<close>, in every state. With
  value false, the event resets \<open>repeat\<close> to \<open>off\<close> when the state is in the mode the
  event names and changes nothing otherwise. From \<open>off\<close>, context-repeat on followed
  by track-repeat on gives \<open>track\<close>.
\<close>

theorem repeat_events:
  "repeat (applyEvent s (boolEvent ''repeat_context'' True raw)) = ''context''
   \<and> repeat (applyEvent s (boolEvent ''repeat_track'' True raw)) = ''track''
   \<and> applyEvent s (boolEvent ''repeat_context'' False raw)
       = (if repeat s = ''context'' then s\<lparr>repeat := ''off''\<rparr> else s)
   \<and> applyEvent s (boolEvent ''repeat_track'' False raw)
       = (if repeat s = ''track'' then s\<lparr>repeat := ''off''\<rparr> else s)
   \<and> applyEvent (applyEvent (s\<lparr>repeat := ''off''\<rparr>) (boolEvent ''repeat_context'' True raw))
         (boolEvent ''repeat_track'' True raw') = s\<lparr>repeat := ''track''\<rparr>"
  by (simp add: applyEvent_def boolEvent_def)

section \<open>Play and pause\<close>

text \<open>
  C7. The space key flips \<open>isPlaying\<close> at once, whatever the client answers to the
  request, and changes nothing else; a \<open>paused\<close> event handled next sets
  \<open>isPlaying\<close> to false, whichever way the key had flipped it.
\<close>

theorem toggle_then_paused:
  "handleKey '' '' s pc = (False, s\<lparr>isPlaying := \<not> isPlaying s\<rparr>, [PlayPause])
   \<and> step pc s (KeyItem '' '') = Some (s\<lparr>isPlaying := \<not> isPlaying s\<rparr>)
   \<and> applyEvent (s\<lparr>isPlaying := \<not> isPlaying s\<rparr>) \<lparr>Type = ''paused'', Data = raw\<rparr>
       = s\<lparr>isPlaying := False\<rparr>
   \<and> map isPlaying (mainLoop pc s [KeyItem '' '', EventItem \<lparr>Type = ''paused'', Data = raw\<rparr>])
       = [\<not> isPlaying s, False]"
  by (simp add: handleKey_def step_def applyEvent_def)

section \<open>Seek\<close>

text \<open>
  In a state that is not playing, the ticks after a seek to 90000 ms leave
  \<open>progress\<close> at 90000 ms: the result is not 92000 ms in every state.
\<close>

theorem seek_then_ticks_counterexample:
  "progress (tick (tick (applyEvent newState (seekEvent 90000 200000 undecodable))))
     = 90000 * Millisecond
   \<and> 90000 * Millisecond \<noteq> 92000 * Millisecond"
  by (simp add: tick_def applyEvent_def seekEvent_def newState_def undecodable_def
      Millisecond_def)

text \<open>
  C8, as it holds of the code. In every state a \<open>seek\<close> event stores the position and the duration
  of its payload, converted from milliseconds, and nothing else; what the ticks
  had added before is overwritten. In a state that is playing and not stopped, a
  seek to 90000 ms of 200000 ms followed by two ticks gives 92000 ms.
\<close>

theorem seek_sets_progress:
  "applyEvent s (seekEvent pos dur raw)
     = s\<lparr>progress := pos * Millisecond, duration := dur * Millisecond\<rparr>
   \<and> applyEvent (tick s) (seekEvent pos dur raw) = applyEvent s (seekEvent pos dur raw)
   \<and> (isPlaying s \<and> \<not> stopped s \<longrightarrow>
        progress (tick (tick (applyEvent s (seekEvent 90000 200000 raw)))) = 92000 * Millisecond)"
  by (simp add: tick_def applyEvent_def seekEvent_def Millisecond_def Second_def Let_def)

theorem seek_sets_progress_witness:
  "isPlaying playingState \<and> \<not> stopped playingState
   \<and> progress (tick (tick (applyEvent playingState (seekEvent 90000 200000 undecodable))))
       = 92000 * Millisecond"
proof -
  have p: "isPlaying playingState \<and> \<not> stopped playingState"
    by (simp add: playingState_def newState_def)
  with seek_sets_progress [of playingState 90000 200000 undecodable] show ?thesis
    by blast
qed

section \<open>Malformed messages\<close>

lemma undecodable_applyEvent: "undecodablePayload ev \<longrightarrow> applyEvent s ev = s"
  by (simp add: undecodablePayload_def applyEvent_def)

lemma unknown_applyEvent: "unknownType ev \<longrightarrow> applyEvent s ev = s"
  by (simp add: unknownType_def knownTypes_def applyEvent_def)

lemma malformed_applyEvent: "malformed ev \<Longrightarrow> applyEvent s ev = s"
  using undecodable_applyEvent [of ev s] unknown_applyEvent [of ev s]
  by (auto simp add: malformed_def)



section \<open>The bound on progress\<close>

lemma tick_keeps_range:
  assumes "progressInRange s" "sint (progress s) + 1000000000 < 2 ^ 63"
  shows "progressInRange (tick s)"
proof (cases "isPlaying s \<and> \<not> stopped s")
  case True
  then have "sint (progress (tick s)) = min (sint (progress s) + 1000000000) (sint (duration s))"
    using tick_sint assms(2) by blast
  moreover have "duration (tick s) = duration s"
    by (simp add: tick_def Let_def)
  ultimately show ?thesis
    using assms(1) by (simp add: progressInRange_def word_sle_eq)
next
  case False
  then have "tick s = s" using tick_idle [of s] by blast
  then show ?thesis using assms(1) by simp
qed

lemma applyEvent_keeps_progress:
  "Type ev \<noteq> ''metadata'' \<and> Type ev \<noteq> ''seek'' \<longrightarrow>
     progress (applyEvent s ev) = progress s \<and> duration (applyEvent s ev) = duration s"
  by (simp add: applyEvent_def split: option.split)

lemma handleKey_keeps_progress:
  "progress (fst (snd (handleKey key s pc))) = progress s
   \<and> duration (fst (snd (handleKey key s pc))) = duration s"
  by (simp add: handleKey_def cycleRepeat_def Let_def)

lemma seek_range:
  "progressInRange (applyEvent s (seekEvent pos dur raw))
     = (0 \<le>s pos * Millisecond \<and> pos * Millisecond \<le>s dur * Millisecond)"
  by (simp add: progressInRange_def applyEvent_def seekEvent_def)

lemma metadata_range:
  "progressInRange (applyEvent s (metadataEvent d raw))
     = (0 \<le>s EventMetadata.Position d * Millisecond
        \<and> EventMetadata.Position d * Millisecond \<le>s EventMetadata.Duration d * Millisecond)"
  by (simp add: progressInRange_def applyEvent_def metadataEvent_def)

lemma applyStatus_progress:
  "progress (applyStatus s st) = progress s
   \<and> duration (applyStatus s st)
       = (case Status.Track st of Some t \<Rightarrow> Track.Duration t * Millisecond | None \<Rightarrow> duration s)"
  by (simp add: applyStatus_def Let_def split: option.split)

text \<open>
  A \<open>seek\<close> event to 5000 ms of a track of 1000 ms, handled in the initial state,
  leaves \<open>progress\<close> above \<open>duration\<close>: the write is not clamped.
\<close>

theorem progress_unclamped_counterexample:
  "\<not> progressInRange (applyEvent newState (seekEvent 5000 1000 undecodable))"
  by (simp add: progressInRange_def applyEvent_def seekEvent_def Millisecond_def word_sle_eq)

text \<open>
  C1, as it holds of the code. From a state with \<open>0 \<le> progress \<le> duration\<close>: a tick keeps the bound
  as long as \<open>progress + 1s\<close> is a duration (no wrap-around); so does every event
  other than a decoded \<open>metadata\<close> or \<open>seek\<close> event, and every key. A \<open>metadata\<close> or
  \<open>seek\<close> event stores the position and the duration of its payload as they come,
  so the bound holds afterwards exactly when it holds between the two stored
  values. \<open>applyStatus\<close> writes the duration of the track, if there is one, and
  never \<open>progress\<close>: the bound holds afterwards exactly when \<open>progress\<close> is at most
  the new duration.
\<close>

theorem progress_range_preserved:
  assumes "progressInRange s"
  shows "(sint (progress s) + 1000000000 < 2 ^ 63 \<longrightarrow> progressInRange (tick s))
       \<and> (Type ev \<noteq> ''metadata'' \<and> Type ev \<noteq> ''seek'' \<longrightarrow> progressInRange (applyEvent s ev))
       \<and> (malformed ev \<longrightarrow> progressInRange (applyEvent s ev))
       \<and> progressInRange (fst (snd (handleKey key s pc)))
       \<and> progressInRange (applyEvent s (seekEvent pos dur raw))
           = (0 \<le>s pos * Millisecond \<and> pos * Millisecond \<le>s dur * Millisecond)
       \<and> progressInRange (applyEvent s (metadataEvent d raw))
           = (0 \<le>s EventMetadata.Position d * Millisecond
              \<and> EventMetadata.Position d * Millisecond \<le>s EventMetadata.Duration d * Millisecond)
       \<and> progressInRange (applyStatus s st)
           = (case Status.Track st of
                Some t \<Rightarrow> progress s \<le>s Track.Duration t * Millisecond
              | None \<Rightarrow> True)"
proof -
  have "Type ev \<noteq> ''metadata'' \<and> Type ev \<noteq> ''seek'' \<longrightarrow> progressInRange (applyEvent s ev)"
    using assms applyEvent_keeps_progress [of ev s] by (simp add: progressInRange_def)
  moreover have "malformed ev \<longrightarrow> progressInRange (applyEvent s ev)"
    using assms malformed_applyEvent [of ev s] by auto
  moreover have "progressInRange (fst (snd (handleKey key s pc)))"
    using assms handleKey_keeps_progress [of key s pc] by (simp add: progressInRange_def)
  moreover have "progressInRange (applyStatus s st)
           = (case Status.Track st of
                Some t \<Rightarrow> progress s \<le>s Track.Duration t * Millisecond
              | None \<Rightarrow> True)"
    using assms applyStatus_progress [of s st]
    by (simp add: progressInRange_def split: option.split)
  ultimately show ?thesis
    using assms tick_keeps_range [of s] seek_range [of s pos dur raw] metadata_range [of s d raw]
    by blast
qed

theorem progress_range_preserved_witness:
  "progressInRange playingState
   \<and> sint (progress playingState) + 1000000000 < 2 ^ 63
   \<and> progressInRange (tick playingState)
   \<and> Type \<lparr>Type = ''paused'', Data = undecodable\<rparr> \<noteq> ''metadata''
   \<and> Type \<lparr>Type = ''paused'', Data = undecodable\<rparr> \<noteq> ''seek''
   \<and> progressInRange (applyEvent playingState \<lparr>Type = ''paused'', Data = undecodable\<rparr>)
   \<and> malformed \<lparr>Type = ''seek'', Data = undecodable\<rparr>
   \<and> progressInRange (applyEvent playingState \<lparr>Type = ''seek'', Data = undecodable\<rparr>)
   \<and> progressInRange (fst (snd (handleKey ''k'' playingState failingClient)))"
proof -
  have h: "progressInRange playingState"
    by (simp add: progressInRange_def playingState_def newState_def Second_def word_sle_eq)
  have n: "sint (progress playingState) + 1000000000 < 2 ^ 63"
    by (simp add: playingState_def newState_def Second_def)
  have t: "Type \<lparr>Type = ''paused'', Data = undecodable\<rparr> \<noteq> ''metadata''
           \<and> Type \<lparr>Type = ''paused'', Data = undecodable\<rparr> \<noteq> ''seek''"
    by simp
  have m: "malformed \<lparr>Type = ''seek'', Data = undecodable\<rparr>"
    by (simp add: malformed_def undecodablePayload_def undecodable_def)
  show ?thesis
    using h n t m
      progress_range_preserved [OF h, of "\<lparr>Type = ''paused'', Data = undecodable\<rparr>"
        "''k''" failingClient]
      progress_range_preserved [OF h, of "\<lparr>Type = ''seek'', Data = undecodable\<rparr>"
        "''k''" failingClient]
    by blast
qed

section \<open>The range of the volume\<close>

lemma volume_up_range:
  fixes v :: int64
  assumes "0 \<le>s v" "v \<le>s 100"
  shows "sint (min_int 100 (v + 5)) = min 100 (sint v + 5)"
proof -
  have "sint (v + 5) = sint v + 5"
    using assms sint_add_no_wrap [of v 5] by (simp add: word_sle_eq)
  then show ?thesis
    by (simp add: min_int_def word_sless_alt min_def)
qed

lemma volume_down_range:
  fixes v :: int64
  assumes "0 \<le>s v" "v \<le>s 100"
  shows "sint (max_int 0 (v - 5)) = max 0 (sint v - 5)"
proof -
  have "sint (v - 5) = sint v - 5"
    using assms sint_sub_no_wrap [of v 5] by (simp add: word_sle_eq)
  then show ?thesis
    by (simp add: max_int_def word_sless_alt max_def)
qed

lemma handleKey_volume:
  "volume (fst (snd (handleKey key s pc)))
     = (if key = ''k'' \<or> key = [CHR 0x1B, CHR ''['', CHR ''A''] then min_int 100 (volume s + 5)
        else if key = ''j'' \<or> key = [CHR 0x1B, CHR ''['', CHR ''B''] then max_int 0 (volume s - 5)
        else volume s)"
  by (simp add: handleKey_def cycleRepeat_def Let_def)

lemma key_volume_range:
  assumes "volumeInRange s"
  shows "volumeInRange (fst (snd (handleKey key s pc)))"
proof -
  have "0 \<le> sint (volume s)" "sint (volume s) \<le> 100"
    using assms by (simp_all add: volumeInRange_def word_sle_eq)
  then show ?thesis
    using assms volume_up_range [of "volume s"] volume_down_range [of "volume s"]
    by (simp add: volumeInRange_def handleKey_volume word_sle_eq)
qed

text \<open>
  A \<open>volume\<close> event with value 150 (of a maximum of 200), handled in the initial
  state, leaves the volume at 150, outside \<open>[0, 100]\<close>.
\<close>

theorem volume_unclamped_counterexample:
  "\<not> volumeInRange (applyEvent newState (volumeEvent 150 200 undecodable))"
  by (simp add: volumeInRange_def applyEvent_def volumeEvent_def)

text \<open>
  C4, as it holds of the code. From a state whose volume is in \<open>[0, 100]\<close>, every key leaves it
  there: volume up gives \<open>min 100 (volume + 5)\<close> and volume down
  \<open>max 0 (volume - 5)\<close>. A \<open>volume\<close> event and \<open>applyStatus\<close> store the value they
  are given as it comes, so the volume is in \<open>[0, 100]\<close> afterwards exactly when
  that value is. No other event and no tick writes the volume.
\<close>

theorem volume_range_preserved:
  "(volumeInRange s \<longrightarrow>
      volumeInRange (fst (snd (handleKey key s pc)))
      \<and> sint (volume (fst (snd (handleKey ''k'' s pc)))) = min 100 (sint (volume s) + 5)
      \<and> sint (volume (fst (snd (handleKey ''j'' s pc)))) = max 0 (sint (volume s) - 5))
   \<and> volume (applyEvent s (volumeEvent v m raw)) = v
   \<and> volumeInRange (applyEvent s (volumeEvent v m raw)) = (0 \<le>s v \<and> v \<le>s 100)
   \<and> volume (applyStatus s st) = Volume st
   \<and> (Type ev \<noteq> ''volume'' \<longrightarrow> volume (applyEvent s ev) = volume s)
   \<and> volume (tick s) = volume s"
proof -
  have "volumeInRange s \<longrightarrow>
      volumeInRange (fst (snd (handleKey key s pc)))
      \<and> sint (volume (fst (snd (handleKey ''k'' s pc)))) = min 100 (sint (volume s) + 5)
      \<and> sint (volume (fst (snd (handleKey ''j'' s pc)))) = max 0 (sint (volume s) - 5)"
    using key_volume_range [of s key pc] volume_up_range [of "volume s"]
      volume_down_range [of "volume s"]
    by (simp add: handleKey_volume volumeInRange_def)
  moreover have "volume (applyEvent s (volumeEvent v m raw)) = v"
    by (simp add: applyEvent_def volumeEvent_def)
  moreover have "volume (applyStatus s st) = Volume st"
    by (simp add: applyStatus_def Let_def split: option.split)
  moreover have "Type ev \<noteq> ''volume'' \<longrightarrow> volume (applyEvent s ev) = volume s"
    by (simp add: applyEvent_def split: option.split)
  moreover have "volume (tick s) = volume s"
    by (simp add: tick_def Let_def)
  ultimately show ?thesis
    by (simp add: volumeInRange_def)
qed

theorem volume_range_preserved_witness:
  "volumeInRange playingState
   \<and> volumeInRange (fst (snd (handleKey ''k'' playingState failingClient)))
   \<and> sint (volume (fst (snd (handleKey ''k'' playingState failingClient)))) = 55
   \<and> sint (volume (fst (snd (handleKey ''j'' playingState failingClient)))) = 45
   \<and> Type \<lparr>Type = ''paused'', Data = undecodable\<rparr> \<noteq> ''volume''
   \<and> volume (applyEvent playingState \<lparr>Type = ''paused'', Data = undecodable\<rparr>) = 50"
proof -
  have h: "volumeInRange playingState"
    by (simp add: volumeInRange_def playingState_def newState_def word_sle_eq)
  have v: "sint (volume playingState) = 50" "volume playingState = 50"
    by (simp_all add: playingState_def newState_def)
  have t: "Type \<lparr>Type = ''paused'', Data = undecodable\<rparr> \<noteq> ''volume''"
    by simp
  show ?thesis
    using h v t
      volume_range_preserved [of playingState "''k''" failingClient _ _ _ _
        "\<lparr>Type = ''paused'', Data = undecodable\<rparr>"]
    by simp
qed

section \<open>Seeding from the status\<close>



section \<open>The progress bar at the end of a track\<close>

lemma truncate_of_int: "truncate (real_of_int k) = k"
  by (simp add: truncate_def)

lemma CreateProgressBar_full:
  assumes "total' \<noteq> 0" "0 < sint width"
  shows "CreateProgressBar total' total' width = Inl NegativeRepeatCount"
proof -
  have nz: "real_of_int (sint total') \<noteq> 0"
    using assms(1) by (simp add: signed_eq_0_iff del: of_int_sint)
  have "truncate (real_of_int (sint width) * (real_of_int (sint total') / real_of_int (sint total')))
          = sint width"
    using nz truncate_of_int [of "sint width"] by (simp del: of_int_sint)
  then show ?thesis
    using assms
    by (simp add: CreateProgressBar_def Repeat_def Let_def del: of_int_sint)
qed

text \<open>
  C3. With \<open>current = total\<close> the bar is filled to the whole width and the second
  \<open>strings.Repeat\<close> is called with \<open>width - filled - 1 = -1\<close>: \<open>CreateProgressBar\<close>
  panics instead of returning a bar. A tick at the end of a track clamps
  \<open>progress\<close> to \<open>duration\<close>, and \<open>render\<close> then reaches this call.
\<close>

theorem progress_bar_panics_at_end:
  "CreateProgressBar Second Second 50 = Inl NegativeRepeatCount
   \<and> tick endOfTrack = endOfTrack
   \<and> render endOfTrack = Inl NegativeRepeatCount
   \<and> render (applyEvent playingState (seekEvent 10000 10000 undecodable))
       = Inl NegativeRepeatCount"
  by (simp add: CreateProgressBar_def render_def endOfTrack_def playingState_def newState_def
      tick_def applyEvent_def seekEvent_def Millisecond_def
      Second_def truncate_def Repeat_def Let_def)

end
